theory Spec2Isabelle
  imports Main "HOL-Library.Sublist"
begin

section \<open>Python strings\<close>

text \<open>
  A Python \<open>str\<close> is a sequence of Unicode code points, and \<open>len\<close>, \<open>in\<close>,
  \<open>split\<close> and \<open>strip\<close> all work on code points. A string is therefore a list of
  code points (natural numbers); \<open>lit\<close> embeds an ASCII literal of the source.
\<close>

type_synonym codepoint = nat
type_synonym str = "codepoint list"

definition lit :: "string \<Rightarrow> str" where
  "lit cs = map of_char cs"

datatype py_error = ValueError | KeyError str | Exception str

text \<open>\<open>sub in s\<close>: some suffix of \<open>s\<close> starts with \<open>sub\<close>.\<close>

fun str_contains :: "'a list \<Rightarrow> 'a list \<Rightarrow> bool" where
  "str_contains sub [] = (sub = [])"
| "str_contains sub (c # cs) = (prefix sub (c # cs) \<or> str_contains sub cs)"

text \<open>
  \<open>s.split(sep)\<close> for a non-empty separator: the text is scanned from the left, every
  occurrence of \<open>sep\<close> ends the current part and the scan goes on behind it, so
  occurrences never overlap and the result has one part more than separators found.
\<close>

function split_parts :: "'a list \<Rightarrow> 'a list \<Rightarrow> 'a list list" where
  "split_parts sep [] = [[]]"
| "split_parts sep (c # cs) =
     (if sep \<noteq> [] \<and> prefix sep (c # cs)
      then [] # split_parts sep (drop (length sep) (c # cs))
      else (case split_parts sep cs of
              [] \<Rightarrow> [[c]]
            | p # ps \<Rightarrow> (c # p) # ps))"
  by pat_completeness auto
termination
  by (relation "measure (\<lambda>(sep, s). length s)") auto

text \<open>An empty separator raises \<open>ValueError\<close>.\<close>

definition str_split :: "'a list \<Rightarrow> 'a list \<Rightarrow> py_error + 'a list list" where
  "str_split s sep = (if sep = [] then Inl ValueError else Inr (split_parts sep s))"

text \<open>
  The characters \<open>str.isspace\<close> accepts, which are the ones \<open>str.strip()\<close> removes:
  the ASCII controls 9 to 13 and 28 to 31, the space, and the Unicode separators.
\<close>

definition is_space :: "codepoint \<Rightarrow> bool" where
  "is_space c =
     ((9 \<le> c \<and> c \<le> 13) \<or> (28 \<le> c \<and> c \<le> 32) \<or> c = 133 \<or> c = 160 \<or> c = 5760
      \<or> (8192 \<le> c \<and> c \<le> 8202) \<or> c = 8232 \<or> c = 8233 \<or> c = 8239 \<or> c = 8287
      \<or> c = 12288)"

definition strip :: "str \<Rightarrow> str" where
  "strip s = rev (dropWhile is_space (rev (dropWhile is_space s)))"

section \<open>Response splitting\<close>

text \<open>
  \<^verbatim>\<open>
  def parse_response_with_score(response: str) -> tuple:
      if "Score:" in response or "Rating:" in response:
          parts = response.split("---")
          if len(parts) > 1:
              return parts[0].strip(), parts[1].strip()
      return response, ""
  \<close>
\<close>

definition parse_response_with_score :: "str \<Rightarrow> py_error + (str \<times> str)" where
  "parse_response_with_score response =
     (if str_contains (lit ''Score:'') response \<or> str_contains (lit ''Rating:'') response
      then (case str_split response (lit ''---'') of
              Inl e \<Rightarrow> Inl e
            | Inr parts \<Rightarrow>
                if length parts > 1
                then Inr (strip (parts ! 0), strip (parts ! 1))
                else Inr (response, []))
      else Inr (response, []))"

section \<open>The prompt catalog\<close>

text \<open>The six values of the dictionary \<open>INTERVIEW_PROMPTS\<close>, line by line as in the source.\<close>

definition prompt_General :: str where
  "prompt_General =
     lit (''You are a senior technical interviewer with 15+ years of experience at leading technology companies including Google, Meta, Microsoft, and Amazon.\<newline>'' @
       ''\<newline>'' @
       ''Your responsibilities:\<newline>'' @
       ''1. Ask relevant, thoughtful technical interview questions\<newline>'' @
       ''2. Evaluate candidate responses with fairness and constructiveness\<newline>'' @
       ''3. Provide specific, actionable feedback for improvement\<newline>'' @
       ''4. Probe deeper with follow-up questions to assess problem-solving approach\<newline>'' @
       ''5. Recommend resources for skill development\<newline>'' @
       ''\<newline>'' @
       ''Evaluation Criteria:\<newline>'' @
       ''- Technical accuracy and depth of understanding\<newline>'' @
       ''- Communication clarity and articulation\<newline>'' @
       ''- Problem-solving methodology and reasoning\<newline>'' @
       ''- Consideration of edge cases and scalability\<newline>'' @
       ''- Time and space complexity awareness\<newline>'' @
       ''\<newline>'' @
       ''Guidelines:\<newline>'' @
       ''- Maintain objectivity and provide balanced assessment\<newline>'' @
       ''- Focus on the reasoning process, not just final answers\<newline>'' @
       ''- Explain the rationale behind your feedback with specific examples\<newline>'' @
       ''- Request clarification when responses lack specificity\<newline>'' @
       ''- Provide scores on a 1-10 scale with clear reasoning\<newline>'' @
       ''\<newline>'' @
       ''Tone: Professional, supportive, and focused on candidate development.'')"

definition prompt_Frontend :: str where
  "prompt_Frontend =
     lit (''You are a senior frontend engineer interviewer specializing in React, JavaScript, and modern web technologies.\<newline>'' @
       ''\<newline>'' @
       ''Your responsibilities:\<newline>'' @
       ''1. Ask targeted questions about React fundamentals, component architecture, and state management\<newline>'' @
       ''2. Assess knowledge of JavaScript ES6+, async programming, and browser APIs\<newline>'' @
       ''3. Evaluate understanding of performance optimization, accessibility, and responsive design\<newline>'' @
       ''4. Provide specific feedback on code quality and best practices\<newline>'' @
       ''\<newline>'' @
       ''Evaluation Areas:\<newline>'' @
       ''- JavaScript fundamentals and ES6+ features\<newline>'' @
       ''- React component lifecycle, hooks, and state management\<newline>'' @
       ''- CSS and responsive design principles\<newline>'' @
       ''- Performance optimization and browser rendering\<newline>'' @
       ''- Testing strategies and debugging skills\<newline>'' @
       ''\<newline>'' @
       ''Provide detailed, constructive feedback with code examples when relevant.'')"

definition prompt_Backend :: str where
  "prompt_Backend =
     lit (''You are a senior backend engineer interviewer with expertise in server-side architecture, databases, and API design.\<newline>'' @
       ''\<newline>'' @
       ''Your responsibilities:\<newline>'' @
       ''1. Ask questions about system design, database optimization, and API development\<newline>'' @
       ''2. Assess knowledge of scaling, caching, security, and deployment\<newline>'' @
       ''3. Evaluate understanding of different architectural patterns and their trade-offs\<newline>'' @
       ''4. Provide feedback on code quality, error handling, and monitoring\<newline>'' @
       ''\<newline>'' @
       ''Evaluation Areas:\<newline>'' @
       ''- RESTful API design and best practices\<newline>'' @
       ''- Database schema design and query optimization\<newline>'' @
       ''- Authentication, authorization, and security\<newline>'' @
       ''- Caching strategies and performance optimization\<newline>'' @
       ''- Deployment, monitoring, and observability\<newline>'' @
       ''\<newline>'' @
       ''Provide structured feedback with explanations of industry best practices.'')"

definition prompt_System_Design :: str where
  "prompt_System_Design =
     lit (''You are a principal engineer specializing in system design and architectural decisions.\<newline>'' @
       ''\<newline>'' @
       ''Your responsibilities:\<newline>'' @
       ''1. Evaluate candidates' ability to design scalable, reliable systems\<newline>'' @
       ''2. Assess trade-offs between different architectural approaches\<newline>'' @
       ''3. Evaluate capacity planning and bottleneck identification\<newline>'' @
       ''4. Provide feedback on communication and problem-solving methodology\<newline>'' @
       ''\<newline>'' @
       ''Evaluation Areas:\<newline>'' @
       ''- Requirements gathering and clarification\<newline>'' @
       ''- High-level architecture design\<newline>'' @
       ''- Database and storage technology selection\<newline>'' @
       ''- Scalability considerations and load balancing\<newline>'' @
       ''- Reliability, fault tolerance, and disaster recovery\<newline>'' @
       ''- Cost optimization and trade-offs\<newline>'' @
       ''\<newline>'' @
       ''Provide detailed analysis of design decisions with industry context.'')"

definition prompt_Data_Structures :: str where
  "prompt_Data_Structures =
     lit (''You are a senior engineer specializing in algorithms and data structures.\<newline>'' @
       ''\<newline>'' @
       ''Your responsibilities:\<newline>'' @
       ''1. Evaluate problem-solving approach and algorithmic thinking\<newline>'' @
       ''2. Assess knowledge of fundamental and advanced data structures\<newline>'' @
       ''3. Evaluate code quality, complexity analysis, and optimization\<newline>'' @
       ''4. Provide feedback on edge case handling and testing\<newline>'' @
       ''\<newline>'' @
       ''Evaluation Areas:\<newline>'' @
       ''- Problem comprehension and clarification\<newline>'' @
       ''- Algorithm selection and optimization\<newline>'' @
       ''- Time and space complexity analysis\<newline>'' @
       ''- Code correctness and edge case handling\<newline>'' @
       ''- Implementation quality and best practices\<newline>'' @
       ''\<newline>'' @
       ''Provide constructive feedback with complexity analysis and optimization suggestions.'')"

definition prompt_Behavioral :: str where
  "prompt_Behavioral =
     lit (''You are an experienced senior engineering manager and interviewer specializing in leadership and team dynamics.\<newline>'' @
       ''\<newline>'' @
       ''Your responsibilities:\<newline>'' @
       ''1. Evaluate communication skills and conflict resolution\<newline>'' @
       ''2. Assess leadership potential and team collaboration\<newline>'' @
       ''3. Evaluate problem-solving and decision-making under pressure\<newline>'' @
       ''4. Provide feedback on professional development areas\<newline>'' @
       ''\<newline>'' @
       ''Evaluation Areas:\<newline>'' @
       ''- Communication clarity and listening skills\<newline>'' @
       ''- Teamwork and collaboration\<newline>'' @
       ''- Leadership and mentorship\<newline>'' @
       ''- Problem-solving under pressure\<newline>'' @
       ''- Conflict resolution and negotiation\<newline>'' @
       ''- Adaptability and growth mindset\<newline>'' @
       ''\<newline>'' @
       ''Provide balanced, supportive feedback focused on professional growth.'')"

definition INTERVIEW_PROMPTS :: "(str \<times> str) list" where
  "INTERVIEW_PROMPTS =
     [(lit ''General'', prompt_General),
      (lit ''Frontend'', prompt_Frontend),
      (lit ''Backend'', prompt_Backend),
      (lit ''System Design'', prompt_System_Design),
      (lit ''Data Structures'', prompt_Data_Structures),
      (lit ''Behavioral'', prompt_Behavioral)]"

text \<open>\<open>d[k]\<close> raises \<open>KeyError\<close> on a missing key; \<open>d.get(k, default)\<close> does not.\<close>

definition dict_index :: "(str \<times> 'v) list \<Rightarrow> str \<Rightarrow> py_error + 'v" where
  "dict_index d k = (case map_of d k of None \<Rightarrow> Inl (KeyError k) | Some v \<Rightarrow> Inr v)"

definition dict_get :: "(str \<times> 'v) list \<Rightarrow> str \<Rightarrow> 'v \<Rightarrow> 'v" where
  "dict_get d k dflt = (case map_of d k of None \<Rightarrow> dflt | Some v \<Rightarrow> v)"

text \<open>
  \<^verbatim>\<open>
  def get_system_prompt(interview_type: str) -> str:
      return INTERVIEW_PROMPTS.get(interview_type, INTERVIEW_PROMPTS["General"])
  \<close>
  The default argument is evaluated before \<open>get\<close> is called.
\<close>

definition get_system_prompt :: "str \<Rightarrow> py_error + str" where
  "get_system_prompt interview_type =
     (case dict_index INTERVIEW_PROMPTS (lit ''General'') of
        Inl e \<Rightarrow> Inl e
      | Inr dflt \<Rightarrow> Inr (dict_get INTERVIEW_PROMPTS interview_type dflt))"

section \<open>Messages and session state\<close>

text \<open>
  A message is the dictionary \<open>{"role": ..., "content": ...}\<close>; the session state holds
  the three entries the script initialises: \<open>messages = []\<close>,
  \<open>interview_type = "General"\<close>, \<open>message_count = 0\<close>.
\<close>

record message =
  role :: str
  content :: str

record session_state =
  messages :: "message list"
  interview_type :: str
  message_count :: int

definition initial_session_state :: session_state where
  "initial_session_state =
     \<lparr>messages = [], interview_type = lit ''General'', message_count = 0\<rparr>"

text \<open>
  \<^verbatim>\<open>
  def format_conversation_history(messages: List[Dict]) -> List[Dict]:
      formatted = []
      for msg in messages:
          formatted.append({"role": msg["role"], "content": msg["content"]})
      return formatted
  \<close>
\<close>

fun format_loop :: "message list \<Rightarrow> message list \<Rightarrow> message list" where
  "format_loop formatted [] = formatted"
| "format_loop formatted (msg # rest) =
     format_loop (formatted @ [\<lparr>role = role msg, content = content msg\<rparr>]) rest"

definition format_conversation_history :: "message list \<Rightarrow> message list" where
  "format_conversation_history msgs = format_loop [] msgs"

subsection \<open>Session operations\<close>

text \<open>
  The user append of the chat handler:
  \<^verbatim>\<open>
  st.session_state.messages.append({"role": "user", "content": user_input})
  st.session_state.message_count += 1
  \<close>
\<close>

definition append_user :: "str \<Rightarrow> session_state \<Rightarrow> session_state" where
  "append_user user_input s =
     s\<lparr>messages := messages s @ [\<lparr>role = lit ''user'', content = user_input\<rparr>],
       message_count := message_count s + 1\<rparr>"

text \<open>
  The assistant append at the end of the \<open>try\<close> block:
  \<^verbatim>\<open>
  st.session_state.messages.append({"role": "assistant", "content": output})
  \<close>
\<close>

definition append_assistant :: "str \<Rightarrow> session_state \<Rightarrow> session_state" where
  "append_assistant output s =
     s\<lparr>messages := messages s @ [\<lparr>role = lit ''assistant'', content = output\<rparr>]\<rparr>"

text \<open>
  The two sidebar buttons run the same two assignments before \<open>st.rerun()\<close>:
  \<^verbatim>\<open>
  st.session_state.messages = []
  st.session_state.message_count = 0
  \<close>
\<close>

definition clear_history :: "session_state \<Rightarrow> session_state" where
  "clear_history s = s\<lparr>messages := [], message_count := 0\<rparr>"

definition new_session :: "session_state \<Rightarrow> session_state" where
  "new_session s = s\<lparr>messages := [], message_count := 0\<rparr>"

text \<open>A sequence of appends, in any order, applied from left to right.\<close>

datatype session_op = AppendUser str | AppendAssistant str

fun apply_op :: "session_op \<Rightarrow> session_state \<Rightarrow> session_state" where
  "apply_op (AppendUser t) s = append_user t s"
| "apply_op (AppendAssistant t) s = append_assistant t s"

fun apply_ops :: "session_op list \<Rightarrow> session_state \<Rightarrow> session_state" where
  "apply_ops [] s = s"
| "apply_ops (x # xs) s = apply_ops xs (apply_op x s)"

fun is_user_op :: "session_op \<Rightarrow> bool" where
  "is_user_op (AppendUser t) = True"
| "is_user_op (AppendAssistant t) = False"

fun is_assistant_op :: "session_op \<Rightarrow> bool" where
  "is_assistant_op (AppendUser t) = False"
| "is_assistant_op (AppendAssistant t) = True"

section \<open>The chat turn\<close>

text \<open>
  The model client is external: \<open>llm.invoke(messages).content\<close> either yields the reply
  text or raises. What the page shows and what is sent to the client is recorded as a
  list of events, in the order of the calls; logging is left out.
\<close>

type_synonym llm = "message list \<Rightarrow> py_error + str"

datatype event =
    StError str
  | StInfo str
  | ChatMessage str str
  | FeedbackScore str
  | Invoke "message list"

definition error_message :: str where
  "error_message =
     lit (''An error occurred while processing your request. '' @
          ''Please verify your API key is valid and try again.'')"

definition troubleshooting :: str where
  "troubleshooting =
     lit (''Troubleshooting:\<newline>'' @
          ''1. Verify GROQ_API_KEY in your .env file\<newline>'' @
          ''2. Check your internet connection\<newline>'' @
          ''3. Ensure your API key is still valid\<newline>'' @
          ''4. Try with a shorter input'')"

text \<open>The \<open>except Exception\<close> branch: a fixed error box and a fixed check list.\<close>

definition except_branch :: "event list" where
  "except_branch = [StError error_message, StInfo troubleshooting]"

text \<open>
  The request assembly inside the \<open>try\<close> block, run after the user append:
  \<^verbatim>\<open>
  system_prompt = get_system_prompt(interview_type)
  messages = [{"role": "system", "content": system_prompt}]
  messages.extend(format_conversation_history(st.session_state.messages[:-1]))
  \<close>
  The slice \<open>[:-1]\<close> is \<open>butlast\<close>, also on the empty list. The script's local
  \<open>interview_type\<close>, the value of the select box, is the parameter \<open>selected_type\<close>.
\<close>

definition request_messages :: "str \<Rightarrow> session_state \<Rightarrow> py_error + message list" where
  "request_messages selected_type s =
     (case get_system_prompt selected_type of
        Inl e \<Rightarrow> Inl e
      | Inr system_prompt \<Rightarrow>
          Inr ([\<lparr>role = lit ''system'', content = system_prompt\<rparr>]
               @ format_conversation_history (butlast (messages s))))"

text \<open>
  The body of \<open>if user_input := st.chat_input(...)\<close>: the user append, the echo of the
  user message, then the \<open>try\<close> block with its handler. An exception leaves the state
  as it was when raised.
\<close>

definition chat_turn :: "llm \<Rightarrow> str \<Rightarrow> str \<Rightarrow> session_state \<Rightarrow> session_state \<times> event list" where
  "chat_turn llm selected_type user_input s =
     (let s1 = append_user user_input s;
          shown = [ChatMessage (lit ''user'') user_input]
      in case request_messages selected_type s1 of
           Inl e \<Rightarrow> (s1, shown @ except_branch)
         | Inr msgs \<Rightarrow>
             (case llm msgs of
                Inl e \<Rightarrow> (s1, shown @ [Invoke msgs] @ except_branch)
              | Inr output \<Rightarrow>
                  (case parse_response_with_score output of
                     Inl e \<Rightarrow> (s1, shown @ [Invoke msgs] @ except_branch)
                   | Inr (main_content, score_content) \<Rightarrow>
                       (append_assistant output s1,
                        shown @ [Invoke msgs, ChatMessage (lit ''assistant'') main_content]
                        @ (if score_content \<noteq> [] then [FeedbackScore score_content] else [])))))"

section \<open>The page script\<close>

text \<open>
  \<^verbatim>\<open>
  def initialize_llm():
      api_key = os.getenv("GROQ_API_KEY")
      if not api_key:
          return None
      try:
          llm = ChatGroq(model=..., api_key=api_key, temperature=0.7, max_tokens=2048)
          return llm
      except Exception as e:
          return None
  \<close>
  The environment variable and the client constructor are parameters. The decorator
  \<open>st.cache_resource\<close> keeps the result of the first call for the later runs of the
  script; a run is modelled with the result it sees.
\<close>

definition initialize_llm :: "str option \<Rightarrow> (str \<Rightarrow> py_error + llm) \<Rightarrow> llm option" where
  "initialize_llm api_key ChatGroq =
     (case api_key of
        None \<Rightarrow> None
      | Some k \<Rightarrow>
          if k = [] then None
          else (case ChatGroq k of Inl e \<Rightarrow> None | Inr client \<Rightarrow> Some client))"

definition configuration_error :: str where
  "configuration_error =
     lit (''Configuration Error: Cannot initialize language model. '' @
          ''Please ensure GROQ_API_KEY is properly set in your .env file.'')"

definition setup_instructions :: str where
  "setup_instructions =
     lit ''Setup instructions: Visit https://console.groq.com to create your API key.''"

text \<open>
  One run of the script from \<open>llm = initialize_llm()\<close> on: without a client the error is
  shown and \<open>st.stop()\<close> ends the run; otherwise the history is displayed and a submitted,
  non-empty chat input runs one chat turn.
\<close>

definition chat_interface ::
  "str option \<Rightarrow> (str \<Rightarrow> py_error + llm) \<Rightarrow> str \<Rightarrow> str option \<Rightarrow> session_state
     \<Rightarrow> session_state \<times> event list" where
  "chat_interface api_key ChatGroq selected_type chat_input s =
     (case initialize_llm api_key ChatGroq of
        None \<Rightarrow> (s, [StError configuration_error, StInfo setup_instructions])
      | Some client \<Rightarrow>
          (let history = map (\<lambda>m. ChatMessage (role m) (content m)) (messages s)
           in case chat_input of
                None \<Rightarrow> (s, history)
              | Some user_input \<Rightarrow>
                  if user_input = [] then (s, history)
                  else (case chat_turn client selected_type user_input s of
                          (s', shown) \<Rightarrow> (s', history @ shown))))"

section \<open>Notions used in the statements\<close>

text \<open>
  The index of the first occurrence of \<open>sub\<close> in a text (\<open>str.find\<close>), the text before
  that occurrence (the whole text when there is none) and the text behind it.
\<close>

fun find_first :: "'a list \<Rightarrow> 'a list \<Rightarrow> nat option" where
  "find_first sub [] = (if sub = [] then Some 0 else None)"
| "find_first sub (c # cs) =
     (if prefix sub (c # cs) then Some 0 else map_option Suc (find_first sub cs))"



text \<open>
  Two texts differ only in letter case when they are different and agree once the
  letters \<open>A\<close> to \<open>Z\<close> are replaced by \<open>a\<close> to \<open>z\<close>; the category names are ASCII.
\<close>

definition ascii_lower :: "codepoint \<Rightarrow> codepoint" where
  "ascii_lower c = (if 65 \<le> c \<and> c \<le> 90 then c + 32 else c)"

definition differs_only_in_case :: "str \<Rightarrow> str \<Rightarrow> bool" where
  "differs_only_in_case a b = (a \<noteq> b \<and> map ascii_lower a = map ascii_lower b)"

section \<open>Literals\<close>

lemma lit_eq_iff: "lit a = lit b \<longleftrightarrow> a = b"
  by (simp add: lit_def inj_map_eq_map inj_on_def)

lemma lit_eq_Nil_iff: "lit a = [] \<longleftrightarrow> a = []"
  by (simp add: lit_def)

lemma delim_not_Nil: "lit ''---'' \<noteq> []"
  by (simp add: lit_def)

section \<open>Searching and splitting\<close>


text \<open>\<open>find_first\<close> yields an occurrence, and no occurrence starts before it.\<close>

lemma find_first_Some:
  "find_first sub s = Some i \<Longrightarrow>
     i \<le> length s \<and> prefix sub (drop i s) \<and> (\<forall>j<i. \<not> prefix sub (drop j s))"
proof (induction s arbitrary: i)
  case Nil
  then show ?case by (simp split: if_splits)
next
  case (Cons c cs)
  show ?case
  proof (cases "prefix sub (c # cs)")
    case True
    with Cons.prems show ?thesis by simp
  next
    case False
    with Cons.prems obtain k where k: "find_first sub cs = Some k" "i = Suc k"
      by auto
    from Cons.IH [OF k(1)] False k(2) show ?thesis
      by (auto simp: less_Suc_eq_0_disj)
  qed
qed


lemma split_parts_absent: "\<not> str_contains sep s \<Longrightarrow> split_parts sep s = [s]"
  by (induction s) auto




lemma parse_total: "\<exists>m sc. parse_response_with_score x = Inr (m, sc)"
  by (simp add: parse_response_with_score_def str_split_def delim_not_Nil)

section \<open>The catalog\<close>

lemma map_of_prompts:
  "map_of INTERVIEW_PROMPTS c =
     (if c = lit ''General'' then Some prompt_General
      else if c = lit ''Frontend'' then Some prompt_Frontend
      else if c = lit ''Backend'' then Some prompt_Backend
      else if c = lit ''System Design'' then Some prompt_System_Design
      else if c = lit ''Data Structures'' then Some prompt_Data_Structures
      else if c = lit ''Behavioral'' then Some prompt_Behavioral
      else None)"
  by (simp add: INTERVIEW_PROMPTS_def)

lemma names_eq:
  "map fst INTERVIEW_PROMPTS =
     [lit ''General'', lit ''Frontend'', lit ''Backend'', lit ''System Design'',
      lit ''Data Structures'', lit ''Behavioral'']"
  by (simp add: INTERVIEW_PROMPTS_def)

lemma general_present: "dict_index INTERVIEW_PROMPTS (lit ''General'') = Inr prompt_General"
  by (simp add: dict_index_def map_of_prompts)

lemma get_system_prompt_eq:
  "get_system_prompt c = Inr (dict_get INTERVIEW_PROMPTS c prompt_General)"
  by (simp add: get_system_prompt_def general_present)

lemma prompts_nonempty:
  "prompt_General \<noteq> []" "prompt_Frontend \<noteq> []" "prompt_Backend \<noteq> []"
  "prompt_System_Design \<noteq> []" "prompt_Data_Structures \<noteq> []" "prompt_Behavioral \<noteq> []"
  by (simp_all add: prompt_General_def prompt_Frontend_def prompt_Backend_def
      prompt_System_Design_def prompt_Data_Structures_def prompt_Behavioral_def lit_eq_Nil_iff)

lemma prompts_differ:
  "prompt_Frontend \<noteq> prompt_General" "prompt_Backend \<noteq> prompt_General"
  "prompt_System_Design \<noteq> prompt_General" "prompt_Data_Structures \<noteq> prompt_General"
  "prompt_Behavioral \<noteq> prompt_General"
  by (simp_all add: prompt_General_def prompt_Frontend_def prompt_Backend_def
      prompt_System_Design_def prompt_Data_Structures_def prompt_Behavioral_def lit_eq_iff)

lemma names_distinct_lower:
  "distinct (map (map ascii_lower) (map fst INTERVIEW_PROMPTS))"
  by (simp add: INTERVIEW_PROMPTS_def lit_def ascii_lower_def)

lemma case_variant_unknown:
  assumes "n \<in> set (map fst INTERVIEW_PROMPTS)" "differs_only_in_case c n"
  shows "c \<notin> set (map fst INTERVIEW_PROMPTS)"
proof
  assume c: "c \<in> set (map fst INTERVIEW_PROMPTS)"
  have "inj_on (map ascii_lower) (set (map fst INTERVIEW_PROMPTS))"
    using names_distinct_lower by (simp only: distinct_map)
  with assms c show False
    unfolding differs_only_in_case_def inj_on_def by blast
qed

lemma unknown_general:
  "c \<notin> set (map fst INTERVIEW_PROMPTS) \<Longrightarrow> get_system_prompt c = Inr prompt_General"
  by (simp add: get_system_prompt_eq dict_get_def map_of_eq_None_iff [THEN iffD2])

lemma own_prompt_differs:
  "n \<in> set (map fst INTERVIEW_PROMPTS) \<Longrightarrow> n \<noteq> lit ''General'' \<Longrightarrow>
     get_system_prompt n \<noteq> Inr prompt_General"
  by (auto simp add: names_eq get_system_prompt_eq dict_get_def map_of_prompts
      prompts_differ lit_eq_iff)

section \<open>The request and the session\<close>

lemma format_loop_append: "format_loop acc msgs = acc @ msgs"
  by (induction msgs arbitrary: acc) simp_all

lemma format_conversation_history_id: "format_conversation_history msgs = msgs"
  by (simp add: format_conversation_history_def format_loop_append)

text \<open>
  After the user append the request is the system entry followed by the history as it
  was before the append: the slice drops the entry just appended.
\<close>

lemma request_messages_after_append:
  "request_messages t (append_user u s) =
     Inr (\<lparr>role = lit ''system'', content = dict_get INTERVIEW_PROMPTS t prompt_General\<rparr>
          # messages s)"
  by (simp add: request_messages_def get_system_prompt_eq append_user_def
      format_conversation_history_id)

text \<open>The client is called once per turn, with the assembled request.\<close>

lemma chat_turn_invokes:
  assumes "request_messages t (append_user u s) = Inr req"
  shows "\<exists>rest. snd (chat_turn llm t u s) = [ChatMessage (lit ''user'') u, Invoke req] @ rest"
proof (cases "llm req")
  case (Inl e)
  with assms show ?thesis
    by (simp add: chat_turn_def)
next
  case (Inr reply)
  obtain m sc where "parse_response_with_score reply = Inr (m, sc)"
    using parse_total by blast
  with assms Inr show ?thesis
    by (simp add: chat_turn_def)
qed

lemma apply_ops_count:
  "message_count (apply_ops ops s) = message_count s + int (length (filter is_user_op ops))"
proof (induction ops arbitrary: s)
  case Nil
  show ?case by simp
next
  case (Cons x xs)
  show ?case
    by (cases x) (simp_all add: Cons.IH append_user_def append_assistant_def)
qed

lemma apply_ops_length:
  "length (messages (apply_ops ops s)) = length (messages s) + length ops"
proof (induction ops arbitrary: s)
  case Nil
  show ?case by simp
next
  case (Cons x xs)
  show ?case
    by (cases x) (simp_all add: Cons.IH append_user_def append_assistant_def)
qed

lemma ops_partition:
  "length ops = length (filter is_user_op ops) + length (filter is_assistant_op ops)"
proof (induction ops)
  case Nil
  show ?case by simp
next
  case (Cons x xs)
  then show ?case by (cases x) simp_all
qed

section \<open>Claims\<close>

text \<open>
  C1. The claim: for every history H and pending user text t the message list sent to
  the model client is the system entry, then H, then the user entry for t, of length
  |H| + 2. The script appends the user turn to the session and then builds the request
  from the session messages without their last entry, so the turn just submitted is
  left out. At the empty history with category Backend and the text
  "Explain database indexing." the request is the system entry alone, and this is the
  list the client is called with.
\<close>

theorem request_omits_pending_turn:
  "request_messages (lit ''Backend'')
     (append_user (lit ''Explain database indexing.'') initial_session_state)
   = Inr [\<lparr>role = lit ''system'', content = prompt_Backend\<rparr>]
   \<and> request_messages (lit ''Backend'')
       (append_user (lit ''Explain database indexing.'') initial_session_state)
     \<noteq> Inr [\<lparr>role = lit ''system'', content = prompt_Backend\<rparr>,
             \<lparr>role = lit ''user'', content = lit ''Explain database indexing.''\<rparr>]
   \<and> (\<exists>rest. snd (chat_turn llm (lit ''Backend'') (lit ''Explain database indexing.'')
                     initial_session_state)
         = [ChatMessage (lit ''user'') (lit ''Explain database indexing.''),
            Invoke [\<lparr>role = lit ''system'', content = prompt_Backend\<rparr>]] @ rest)"
proof -
  have req: "request_messages (lit ''Backend'')
     (append_user (lit ''Explain database indexing.'') initial_session_state)
   = Inr [\<lparr>role = lit ''system'', content = prompt_Backend\<rparr>]"
    by (simp add: request_messages_after_append dict_get_def map_of_prompts lit_eq_iff
        initial_session_state_def)
  from chat_turn_invokes [OF req] req show ?thesis
    by simp
qed




text \<open>
  C3. The splitter returns a pair on every input, and for every input that contains
  neither "Score:" nor "Rating:", or that contains no "---", the pair is the input
  unchanged and the empty string.
\<close>

theorem split_no_score:
  "(\<exists>r. parse_response_with_score x = Inr r) \<and>
   ((\<not> str_contains (lit ''Score:'') x \<and> \<not> str_contains (lit ''Rating:'') x)
     \<or> \<not> str_contains (lit ''---'') x
    \<longrightarrow> parse_response_with_score x = Inr (x, []))"
  by (auto simp add: parse_response_with_score_def str_split_def delim_not_Nil
      split_parts_absent)

text \<open>
  C3 at "Try again with more detail." (no trigger) and at "Score: 7/10" (a trigger, no
  delimiter).
\<close>

theorem split_no_score_witness:
  "\<not> str_contains (lit ''Score:'') (lit ''Try again with more detail.'')
   \<and> \<not> str_contains (lit ''Rating:'') (lit ''Try again with more detail.'')
   \<and> parse_response_with_score (lit ''Try again with more detail.'')
       = Inr (lit ''Try again with more detail.'', [])
   \<and> str_contains (lit ''Score:'') (lit ''Score: 7/10'')
   \<and> \<not> str_contains (lit ''---'') (lit ''Score: 7/10'')
   \<and> parse_response_with_score (lit ''Score: 7/10'') = Inr (lit ''Score: 7/10'', [])"
proof -
  have a: "\<not> str_contains (lit ''Score:'') (lit ''Try again with more detail.'')"
    by (simp add: lit_def)
  have b: "\<not> str_contains (lit ''Rating:'') (lit ''Try again with more detail.'')"
    by (simp add: lit_def)
  have c: "str_contains (lit ''Score:'') (lit ''Score: 7/10'')"
    by (simp add: lit_def)
  have d: "\<not> str_contains (lit ''---'') (lit ''Score: 7/10'')"
    by (simp add: lit_def)
  show ?thesis
    using split_no_score [of "lit ''Try again with more detail.''"]
      split_no_score [of "lit ''Score: 7/10''"] a b c d
    by blast
qed

text \<open>
  C4. For every string, the empty one included, the catalog lookup returns a prompt, the
  prompt is not empty, and for a string that is none of the six category names it is the
  General prompt.
\<close>

theorem lookup_total:
  "\<exists>p. get_system_prompt c = Inr p \<and> p \<noteq> [] \<and>
     (c \<notin> {lit ''General'', lit ''Frontend'', lit ''Backend'', lit ''System Design'',
            lit ''Data Structures'', lit ''Behavioral''} \<longrightarrow> p = prompt_General)"
  by (simp add: get_system_prompt_eq dict_get_def map_of_prompts prompts_nonempty)

text \<open>C4 at the empty string.\<close>

theorem lookup_total_witness:
  "[] \<notin> {lit ''General'', lit ''Frontend'', lit ''Backend'', lit ''System Design'',
           lit ''Data Structures'', lit ''Behavioral''}
   \<and> get_system_prompt [] = Inr prompt_General \<and> prompt_General \<noteq> []"
proof -
  have h: "[] \<notin> {lit ''General'', lit ''Frontend'', lit ''Backend'', lit ''System Design'',
           lit ''Data Structures'', lit ''Behavioral''}"
    by (simp add: lit_def)
  obtain p where "get_system_prompt [] = Inr p" "p \<noteq> []" "p = prompt_General"
    using lookup_total [of "[]"] h by blast
  then show ?thesis using h by simp
qed

text \<open>
  C5. From the initial session, after any sequence of user appends and assistant appends,
  the message count is the number of user appends and the history has as many entries as
  there were appends of either kind; an assistant append leaves the message count as it
  was.
\<close>

theorem session_counters:
  "message_count (apply_ops ops initial_session_state) = int (length (filter is_user_op ops))
   \<and> length (messages (apply_ops ops initial_session_state))
       = length (filter is_user_op ops) + length (filter is_assistant_op ops)
   \<and> message_count (append_assistant t s) = message_count s"
  using ops_partition [of ops]
  by (simp add: apply_ops_count apply_ops_length initial_session_state_def append_assistant_def)

text \<open>
  C6. After either session button, whatever the state before, the history is empty and
  the message count is zero.
\<close>

theorem reset_clears:
  "length (messages (clear_history s)) = 0 \<and> message_count (clear_history s) = 0
   \<and> length (messages (new_session s)) = 0 \<and> message_count (new_session s) = 0"
  by (simp add: clear_history_def new_session_def)

text \<open>
  C7. When the client raises on the request of a turn, the turn ends with the state as it
  was after the user append: the history is the old history followed by the user entry,
  which is its last element, no assistant entry is added, and the page shows the fixed
  error text and check list.
\<close>

theorem failure_keeps_user_turn:
  assumes "request_messages t (append_user u s) = Inr req" and "llm req = Inl e"
  shows "chat_turn llm t u s =
           (append_user u s,
            [ChatMessage (lit ''user'') u, Invoke req, StError error_message,
             StInfo troubleshooting])
         \<and> messages (fst (chat_turn llm t u s))
             = messages s @ [\<lparr>role = lit ''user'', content = u\<rparr>]
         \<and> last (messages (fst (chat_turn llm t u s)))
             = \<lparr>role = lit ''user'', content = u\<rparr>"
  using assms by (simp add: chat_turn_def except_branch_def append_user_def)

text \<open>C7 at the initial session, with a client that raises on every request.\<close>

theorem failure_keeps_user_turn_witness:
  "request_messages (lit ''General'') (append_user (lit ''hi'') initial_session_state)
     = Inr [\<lparr>role = lit ''system'', content = prompt_General\<rparr>]
   \<and> (\<lambda>m. Inl (Exception (lit ''rate limit'')))
        [\<lparr>role = lit ''system'', content = prompt_General\<rparr>]
       = (Inl (Exception (lit ''rate limit'')) :: py_error + str)
   \<and> chat_turn (\<lambda>m. Inl (Exception (lit ''rate limit''))) (lit ''General'') (lit ''hi'')
        initial_session_state
       = (append_user (lit ''hi'') initial_session_state,
          [ChatMessage (lit ''user'') (lit ''hi''),
           Invoke [\<lparr>role = lit ''system'', content = prompt_General\<rparr>],
           StError error_message, StInfo troubleshooting])
   \<and> messages (fst (chat_turn (\<lambda>m. Inl (Exception (lit ''rate limit''))) (lit ''General'')
        (lit ''hi'') initial_session_state))
       = [\<lparr>role = lit ''user'', content = lit ''hi''\<rparr>]"
proof -
  have req: "request_messages (lit ''General'') (append_user (lit ''hi'') initial_session_state)
     = Inr [\<lparr>role = lit ''system'', content = prompt_General\<rparr>]"
    by (simp add: request_messages_after_append dict_get_def map_of_prompts
        initial_session_state_def)
  have fails: "(\<lambda>m. Inl (Exception (lit ''rate limit'')))
        [\<lparr>role = lit ''system'', content = prompt_General\<rparr>]
       = (Inl (Exception (lit ''rate limit'')) :: py_error + str)"
    by simp
  show ?thesis
    using failure_keeps_user_turn [OF req fails] req
    by (simp add: initial_session_state_def append_user_def)
qed

text \<open>
  C8. When the client returns a reply, the assistant entry appended to the history holds
  the reply as returned; the main content shown on the page is the first component of
  the split reply.
\<close>

theorem success_stores_raw_reply:
  assumes "request_messages t (append_user u s) = Inr req" and "llm req = Inr reply"
  shows "messages (fst (chat_turn llm t u s))
           = messages s @ [\<lparr>role = lit ''user'', content = u\<rparr>,
                           \<lparr>role = lit ''assistant'', content = reply\<rparr>]
         \<and> (\<exists>main_content score_content.
               parse_response_with_score reply = Inr (main_content, score_content)
               \<and> snd (chat_turn llm t u s)
                   = [ChatMessage (lit ''user'') u, Invoke req,
                      ChatMessage (lit ''assistant'') main_content]
                     @ (if score_content \<noteq> [] then [FeedbackScore score_content] else []))"
proof -
  obtain m sc where p: "parse_response_with_score reply = Inr (m, sc)"
    using parse_total by blast
  with assms show ?thesis
    by (simp add: chat_turn_def append_user_def append_assistant_def)
qed

text \<open>
  C8 at the initial session, with a client whose reply "Good. --- Score: 7 " has a score
  segment and blanks that the splitter trims.
\<close>

theorem success_stores_raw_reply_witness:
  "request_messages (lit ''General'') (append_user (lit ''hi'') initial_session_state)
     = Inr [\<lparr>role = lit ''system'', content = prompt_General\<rparr>]
   \<and> (\<lambda>m. Inr (lit ''Good. --- Score: 7 ''))
        [\<lparr>role = lit ''system'', content = prompt_General\<rparr>]
       = (Inr (lit ''Good. --- Score: 7 '') :: py_error + str)
   \<and> messages (fst (chat_turn (\<lambda>m. Inr (lit ''Good. --- Score: 7 '')) (lit ''General'')
        (lit ''hi'') initial_session_state))
       = [\<lparr>role = lit ''user'', content = lit ''hi''\<rparr>,
          \<lparr>role = lit ''assistant'', content = lit ''Good. --- Score: 7 ''\<rparr>]"
proof -
  have req: "request_messages (lit ''General'') (append_user (lit ''hi'') initial_session_state)
     = Inr [\<lparr>role = lit ''system'', content = prompt_General\<rparr>]"
    by (simp add: request_messages_after_append dict_get_def map_of_prompts
        initial_session_state_def)
  have ok: "(\<lambda>m. Inr (lit ''Good. --- Score: 7 ''))
        [\<lparr>role = lit ''system'', content = prompt_General\<rparr>]
       = (Inr (lit ''Good. --- Score: 7 '') :: py_error + str)"
    by simp
  show ?thesis
    using success_stores_raw_reply [OF req ok] req
    by (simp add: initial_session_state_def)
qed

text \<open>
  C9. When the key is missing or empty, or the client constructor raises, there is no
  client, and a run of the page shows the configuration error once and stops: the
  session is unchanged and no request goes to a client, whatever the chat input.
\<close>

theorem no_client_no_turn:
  assumes "api_key = None \<or> api_key = Some []
           \<or> (\<exists>k e. api_key = Some k \<and> ChatGroq k = Inl e)"
  shows "initialize_llm api_key ChatGroq = None
         \<and> chat_interface api_key ChatGroq t chat_input s
             = (s, [StError configuration_error, StInfo setup_instructions])
         \<and> Invoke req \<notin> set (snd (chat_interface api_key ChatGroq t chat_input s))"
proof -
  from assms have "initialize_llm api_key ChatGroq = None"
    by (auto simp add: initialize_llm_def)
  then show ?thesis
    by (simp add: chat_interface_def)
qed

text \<open>C9 with no key in the environment and a submitted chat input.\<close>

theorem no_client_no_turn_witness:
  "((None :: str option) = None \<or> (None :: str option) = Some []
     \<or> (\<exists>k e. (None :: str option) = Some k
           \<and> (\<lambda>k. Inr (\<lambda>m. Inr (lit ''ok''))) k = (Inl e :: py_error + llm)))
   \<and> initialize_llm None (\<lambda>k. Inr (\<lambda>m. Inr (lit ''ok''))) = None
   \<and> chat_interface None (\<lambda>k. Inr (\<lambda>m. Inr (lit ''ok''))) (lit ''General'')
        (Some (lit ''hello'')) initial_session_state
       = (initial_session_state, [StError configuration_error, StInfo setup_instructions])"
proof -
  have h: "(None :: str option) = None \<or> (None :: str option) = Some []
     \<or> (\<exists>k e. (None :: str option) = Some k
           \<and> (\<lambda>k. Inr (\<lambda>m. Inr (lit ''ok''))) k = (Inl e :: py_error + llm))"
    by simp
  show ?thesis
    using no_client_no_turn [OF h, of "lit ''General''" "Some (lit ''hello'')"
        initial_session_state] h
    by blast
qed

text \<open>
  C10, as stated: every input that differs from a category name only in letter case
  gets the General prompt and not the prompt of that category. The input "general"
  refutes the second half: it differs from the name "General" only in letter case, it is
  no key of the dictionary, and the default it gets is the prompt of the category
  General itself.
\<close>

theorem lookup_general_variant_counterexample:
  "lit ''General'' \<in> set (map fst INTERVIEW_PROMPTS)
   \<and> differs_only_in_case (lit ''general'') (lit ''General'')
   \<and> get_system_prompt (lit ''general'') = Inr prompt_General
   \<and> get_system_prompt (lit ''General'') = Inr prompt_General
   \<and> get_system_prompt (lit ''general'') = get_system_prompt (lit ''General'')"
proof -
  have a: "lit ''General'' \<in> set (map fst INTERVIEW_PROMPTS)"
    by (simp add: names_eq)
  have b: "differs_only_in_case (lit ''general'') (lit ''General'')"
    by (simp add: differs_only_in_case_def lit_def ascii_lower_def)
  have variant: "get_system_prompt (lit ''general'') = Inr prompt_General"
    by (rule unknown_general [OF case_variant_unknown [OF a b]])
  have own: "get_system_prompt (lit ''General'') = Inr prompt_General"
    by (simp add: get_system_prompt_eq dict_get_def map_of_prompts)
  from a b variant own show ?thesis
    by simp
qed

text \<open>
  C10, amended: the lookup compares names exactly. An input that differs from a
  category name only in letter case gets the General prompt; this is not the prompt of
  that category exactly when the category is one of the five other than General, and
  for a case variant of "General" it is the prompt of General itself.
\<close>

theorem lookup_case_sensitive:
  "n \<in> set (map fst INTERVIEW_PROMPTS) \<Longrightarrow> differs_only_in_case c n \<Longrightarrow>
     get_system_prompt c = Inr prompt_General \<and>
     (get_system_prompt c \<noteq> get_system_prompt n \<longleftrightarrow> n \<noteq> lit ''General'')"
proof -
  assume n: "n \<in> set (map fst INTERVIEW_PROMPTS)" and d: "differs_only_in_case c n"
  have variant: "get_system_prompt c = Inr prompt_General"
    by (rule unknown_general [OF case_variant_unknown [OF n d]])
  have own: "get_system_prompt (lit ''General'') = Inr prompt_General"
    by (simp add: get_system_prompt_eq dict_get_def map_of_prompts)
  show ?thesis
  proof (cases "n = lit ''General''")
    case True
    with variant own show ?thesis by simp
  next
    case False
    with own_prompt_differs [OF n] variant show ?thesis by simp
  qed
qed

text \<open>
  C10, amended, at "frontend" against the category name "Frontend" and at "general"
  against "General".
\<close>

theorem lookup_case_sensitive_witness:
  "lit ''Frontend'' \<in> set (map fst INTERVIEW_PROMPTS) \<and>
   differs_only_in_case (lit ''frontend'') (lit ''Frontend'') \<and>
   lit ''Frontend'' \<noteq> lit ''General'' \<and>
   get_system_prompt (lit ''frontend'') = Inr prompt_General \<and>
   get_system_prompt (lit ''frontend'') \<noteq> get_system_prompt (lit ''Frontend'') \<and>
   lit ''General'' \<in> set (map fst INTERVIEW_PROMPTS) \<and>
   differs_only_in_case (lit ''general'') (lit ''General'') \<and>
   get_system_prompt (lit ''general'') = Inr prompt_General \<and>
   \<not> get_system_prompt (lit ''general'') \<noteq> get_system_prompt (lit ''General'')"
proof -
  have a: "lit ''Frontend'' \<in> set (map fst INTERVIEW_PROMPTS)"
    by (simp add: names_eq)
  have b: "differs_only_in_case (lit ''frontend'') (lit ''Frontend'')"
    by (simp add: differs_only_in_case_def lit_def ascii_lower_def)
  have c: "lit ''Frontend'' \<noteq> lit ''General''"
    by (simp add: lit_eq_iff)
  have a': "lit ''General'' \<in> set (map fst INTERVIEW_PROMPTS)"
    by (simp add: names_eq)
  have b': "differs_only_in_case (lit ''general'') (lit ''General'')"
    by (simp add: differs_only_in_case_def lit_def ascii_lower_def)
  show ?thesis
    using lookup_case_sensitive [OF a b] lookup_case_sensitive [OF a' b'] a b c a' b'
    by blast
qed

end
